theory Spec2Isabelle
  imports Complex_Main "HOL-Library.AList"
begin

section \<open>Python strings\<close>

text \<open>
  A Python \<open>str\<close> is a sequence of code points. The model uses \<open>string\<close> and reads each
  \<open>char\<close> as one code point of the Latin-1 range (0 to 255), so \<open>length\<close> is Python's
  \<open>len\<close> on such text. The functions below are \<open>str.isspace\<close>, \<open>str.strip\<close>,
  \<open>str.lower\<close>, \<open>str.upper\<close>, \<open>in\<close>, \<open>str.startswith\<close> and \<open>str.replace\<close>
  on that range.
\<close>

definition py_isspace :: "char \<Rightarrow> bool" where
  "py_isspace c =
     (let n = (of_char c :: nat)
      in (9 \<le> n \<and> n \<le> 13) \<or> (28 \<le> n \<and> n \<le> 32) \<or> n = 133 \<or> n = 160)"

definition py_strip :: "string \<Rightarrow> string" where
  "py_strip s = rev (dropWhile py_isspace (rev (dropWhile py_isspace s)))"

definition py_lower_char :: "char \<Rightarrow> char" where
  "py_lower_char c =
     (let n = (of_char c :: nat)
      in if (65 \<le> n \<and> n \<le> 90) \<or> (192 \<le> n \<and> n \<le> 222 \<and> n \<noteq> 215)
         then char_of (n + 32) else c)"

definition py_lower :: "string \<Rightarrow> string" where
  "py_lower s = map py_lower_char s"

text \<open>
  \<open>str.upper\<close> maps the sharp s (223) to the two letters SS. The upper-case forms of
  code points 181 and 255 lie outside Latin-1 and are no ASCII letters; the model leaves
  these two code points as they are.
\<close>

definition py_upper_char :: "char \<Rightarrow> string" where
  "py_upper_char c =
     (let n = (of_char c :: nat)
      in if (97 \<le> n \<and> n \<le> 122) \<or> (224 \<le> n \<and> n \<le> 254 \<and> n \<noteq> 247)
         then [char_of (n - 32)]
         else if n = 223 then ''SS'' else [c])"

definition py_upper :: "string \<Rightarrow> string" where
  "py_upper s = concat (map py_upper_char s)"

definition py_startswith :: "string \<Rightarrow> string \<Rightarrow> bool" where
  "py_startswith s p = (take (length p) s = p)"

text \<open>\<open>py_in needle hay\<close> is Python's \<open>needle in hay\<close> on strings.\<close>

fun py_in :: "string \<Rightarrow> string \<Rightarrow> bool" where
  "py_in needle [] = (needle = [])"
| "py_in needle (c # cs) = (py_startswith (c # cs) needle \<or> py_in needle cs)"

text \<open>
  \<open>s.replace(old, new)\<close> for a non-empty \<open>old\<close>: the occurrences are replaced from the
  left and do not overlap. The source calls it with constant non-empty patterns only.
\<close>

function py_replace :: "string \<Rightarrow> string \<Rightarrow> string \<Rightarrow> string" where
  "py_replace old new s =
     (if old = [] \<or> s = [] then s
      else if py_startswith s old then new @ py_replace old new (drop (length old) s)
      else hd s # py_replace old new (tl s))"
  by pat_completeness auto
termination
  by (relation "measure (\<lambda>(old, new, s). length s)") auto

text \<open>Truthiness of an optional string: \<open>None\<close> and the empty string are falsy.\<close>

definition truthy_str :: "string option \<Rightarrow> bool" where
  "truthy_str x = (case x of None \<Rightarrow> False | Some s \<Rightarrow> s \<noteq> [])"

text \<open>\<open>int(x)\<close> on a number truncates towards zero.\<close>

definition py_int :: "rat \<Rightarrow> int" where
  "py_int x = (if 0 \<le> x then \<lfloor>x\<rfloor> else \<lceil>x\<rceil>)"

section \<open>JSON values\<close>

text \<open>
  The values \<open>json.loads\<close> returns. A dict is the association list of its items in
  insertion order; the keys of a parsed dict are distinct. No function of the program
  inspects a float, so a finite rational stands for it.
\<close>

datatype json =
    JNull
  | JBool bool
  | JInt int
  | JFloat rat
  | JStr string
  | JList "json list"
  | JDict "(string \<times> json) list"

text \<open>Truthiness of a parsed value, as \<open>if value:\<close> tests it.\<close>

fun json_truthy :: "json \<Rightarrow> bool" where
  "json_truthy JNull = False"
| "json_truthy (JBool b) = b"
| "json_truthy (JInt i) = (i \<noteq> 0)"
| "json_truthy (JFloat x) = (x \<noteq> 0)"
| "json_truthy (JStr s) = (s \<noteq> [])"
| "json_truthy (JList xs) = (xs \<noteq> [])"
| "json_truthy (JDict kvs) = (kvs \<noteq> [])"

text \<open>\<open>d[k]\<close> on a parsed value: \<open>None\<close> stands for the KeyError or TypeError.\<close>

fun json_get :: "json \<Rightarrow> string \<Rightarrow> json option" where
  "json_get (JDict kvs) k = map_of kvs k"
| "json_get _ k = None"

section \<open>The outside world\<close>

text \<open>
  The program calls libraries and services that are not part of the repository. Each is a
  field of the environment, and every theorem holds for every environment.
  \<^item> \<open>GEMINI_API_KEY\<close>: the value of the environment variable, \<open>None\<close> when unset.
  \<^item> \<open>json_loads\<close>: \<open>json.loads\<close>; \<open>None\<close> when it raises.
  \<^item> \<open>py_str\<close>: \<open>str\<close> on a parsed value. \<open>json_dumps\<close>: \<open>json.dumps(v, indent=2)\<close>.
  \<^item> \<open>judge_reply\<close>: the text the model returns for the answer-checking prompt built
    from the student answer, the correct answer, the question text and the answer type;
    \<open>None\<close> when creating the client, the call or reading the text raises.
  \<^item> \<open>b64decode\<close>: \<open>base64.b64decode\<close>; \<open>None\<close> when it raises.
  \<^item> \<open>files_upload\<close>: uploading the file at a path with the given content; the result is
    a handle, \<open>None\<close> when creating the client or the upload raises.
  \<^item> \<open>ocr_reply\<close>: the text the model returns for the transcription request on an
    uploaded image; \<open>None\<close> when the call or reading the text raises.
  \<^item> \<open>time_time\<close>: the value of \<open>time.time()\<close> in the iteration with the given index
    of the Stage-1 loop.
  \<^item> \<open>report_stamp\<close>: \<open>now.strftime('%Y_%m_%d_%H%M%S')\<close> at report generation.
\<close>

record env =
  GEMINI_API_KEY :: "string option"
  json_loads :: "string \<Rightarrow> json option"
  py_str :: "json \<Rightarrow> string"
  json_dumps :: "json \<Rightarrow> string"
  judge_reply :: "string \<Rightarrow> string \<Rightarrow> string \<Rightarrow> string \<Rightarrow> string option"
  b64decode :: "string \<Rightarrow> string option"
  files_upload :: "string \<Rightarrow> string \<Rightarrow> string option"
  ocr_reply :: "string \<Rightarrow> string option"
  time_time :: "nat \<Rightarrow> rat"
  report_stamp :: string

section \<open>Answer extraction (extract_answer_from_json)\<close>

text \<open>The loop over the three numeric keys: the first key present decides.\<close>

fun first_key_value :: "(string \<times> json) list \<Rightarrow> string list \<Rightarrow> json option" where
  "first_key_value answer_data [] = None"
| "first_key_value answer_data (key # keys) =
     (case map_of answer_data key of
        Some v \<Rightarrow> Some v
      | None \<Rightarrow> first_key_value answer_data keys)"

definition extract_answer_from_json :: "'a env_scheme \<Rightarrow> string \<Rightarrow> string \<Rightarrow> string option" where
  "extract_answer_from_json e answer_json_str answer_type =
     (if answer_json_str = [] then None
      else case json_loads e answer_json_str of
        None \<Rightarrow> Some answer_json_str
      | Some answer_data \<Rightarrow>
          (case answer_data of
             JDict kvs \<Rightarrow>
               (case map_of kvs ''answer'' of
                  Some v \<Rightarrow> Some (py_str e v)
                | None \<Rightarrow>
                    (case map_of kvs ''value'' of
                       Some v \<Rightarrow> Some (py_str e v)
                     | None \<Rightarrow>
                         (if answer_type \<in> set [''integer'', ''float'']
                          then (case first_key_value kvs [''number'', ''numerical_value'', ''result''] of
                                  Some v \<Rightarrow> Some (py_str e v)
                                | None \<Rightarrow> Some (py_str e answer_data))
                          else Some (py_str e answer_data))))
           | JList xs \<Rightarrow>
               (case xs of
                  x # _ \<Rightarrow> Some (py_str e x)
                | [] \<Rightarrow> Some (py_str e answer_data))
           | _ \<Rightarrow> Some (py_str e answer_data)))"

text \<open>
  The reading of the specification: the keys tried, in order, for an answer type, and the
  value at the first of them that the dict has.
\<close>

definition spec_candidate_keys :: "string \<Rightarrow> string list" where
  "spec_candidate_keys answer_type =
     [''answer'', ''value''] @
     (if answer_type = ''integer'' \<or> answer_type = ''float''
      then [''number'', ''numerical_value'', ''result''] else [])"

definition spec_first_present :: "(string \<times> json) list \<Rightarrow> string list \<Rightarrow> json option" where
  "spec_first_present kvs keys =
     (case List.find (\<lambda>k. k \<in> fst ` set kvs) keys of
        None \<Rightarrow> None
      | Some k \<Rightarrow> map_of kvs k)"

section \<open>Difficulty of a question of the first store (get_questions_from_db)\<close>

text \<open>
  Lines 193 to 199: the label computed from the \<open>solution\<close> column of a row, which is
  \<open>None\<close> for a NULL.
\<close>

definition olympiad_difficulty :: "string option \<Rightarrow> string" where
  "olympiad_difficulty solution =
     (case solution of
        None \<Rightarrow> ''medium''
      | Some sol \<Rightarrow>
          if sol \<noteq> []
          then (let sol_len = int (length sol)
                in if sol_len < 200 then ''easy''
                   else if sol_len > 500 then ''hard''
                   else ''medium'')
          else ''medium'')"

section \<open>The correctness judge (check_answer_with_llm)\<close>

definition check_answer_with_llm :: "'a env_scheme \<Rightarrow> string \<Rightarrow> string \<Rightarrow> string \<Rightarrow> string \<Rightarrow> bool" where
  "check_answer_with_llm e student_answer correct_answer question_text answer_type =
     (if \<not> truthy_str (GEMINI_API_KEY e)
      then py_lower (py_strip student_answer) = py_lower (py_strip correct_answer)
      else case judge_reply e student_answer correct_answer question_text answer_type of
        Some text \<Rightarrow> py_in ''CORRECT'' (py_upper (py_strip text))
      | None \<Rightarrow> py_lower (py_strip student_answer) = py_lower (py_strip correct_answer))"

section \<open>Questions, submissions and the disk\<close>

text \<open>A question as the question store adapter builds it (the keys the pipeline reads).\<close>

record question =
  question_id :: string
  question_type :: string
  difficulty :: string
  concept_tags :: "string list"
  question_text :: string
  correct_answer :: string
  answer_type :: string

text \<open>
  An entry of \<open>st.session_state.responses\<close>: a dict in which each of the four keys may
  be missing.
\<close>

record response =
  final_answer :: "string option"
  changed_answer :: "bool option"
  timestamp :: "rat option"
  typed_work :: "string option"

text \<open>An entry of \<open>st.session_state.uploaded_files\<close>: the file name and the base64 text.\<close>

record uploaded =
  filename :: string
  data :: string

text \<open>
  The files and directories the program writes. Writing and removing a file the program
  has just written are taken to succeed.
\<close>

record disk =
  files :: "string \<rightharpoonup> string"
  dirs :: "string set"

section \<open>Work transcription (process_student_work)\<close>

record work_data =
  handwritten_work_ocr :: string
  combined_work :: string

text \<open>\<open>responses.get(q_id, {}).get('typed_work', '')\<close>\<close>

definition typed_work_of :: "(string \<rightharpoonup> response) \<Rightarrow> string \<Rightarrow> string" where
  "typed_work_of resps q_id =
     (case resps q_id of
        None \<Rightarrow> []
      | Some r \<Rightarrow> (case typed_work r of None \<Rightarrow> [] | Some t \<Rightarrow> t))"

definition temp_path_of :: "string \<Rightarrow> string" where
  "temp_path_of q_id = ''temp_'' @ q_id @ ''.jpg''"

definition combine_work :: "string \<Rightarrow> string \<Rightarrow> string" where
  "combine_work typed handwritten_ocr =
     (if typed \<noteq> [] \<and> handwritten_ocr \<noteq> []
      then ''**Typed Work:**'' @ [CHR 0x0A] @ typed @ [CHR 0x0A, CHR 0x0A] @
           ''**Handwritten Work (OCR):**'' @ [CHR 0x0A] @ handwritten_ocr
      else if handwritten_ocr \<noteq> [] then handwritten_ocr
      else typed)"

text \<open>
  Every exception inside the \<open>try\<close> block leaves \<open>handwritten_ocr\<close> empty and
  \<open>combined_work\<close> equal to the typed work, and skips the rest of the block.
\<close>

definition process_student_work ::
  "'a env_scheme \<Rightarrow> disk \<Rightarrow> question \<Rightarrow> (string \<rightharpoonup> response) \<Rightarrow> (string \<rightharpoonup> uploaded) \<Rightarrow> work_data \<times> disk" where
  "process_student_work e d question resps uploads =
     (let q_id = question_id question;
          typed = typed_work_of resps q_id;
          failed = \<lparr>handwritten_work_ocr = [], combined_work = typed\<rparr>
      in case uploads q_id of
           None \<Rightarrow> (failed, d)
         | Some up \<Rightarrow>
             if \<not> truthy_str (GEMINI_API_KEY e) then (failed, d)
             else (case b64decode e (data up) of
                     None \<Rightarrow> (failed, d)
                   | Some image_bytes \<Rightarrow>
                       (let temp_path = temp_path_of q_id;
                            d1 = d\<lparr>files := (files d)(temp_path \<mapsto> image_bytes)\<rparr>
                        in case files_upload e temp_path image_bytes of
                             None \<Rightarrow> (failed, d1)
                           | Some uploaded_image \<Rightarrow>
                               (case ocr_reply e uploaded_image of
                                  None \<Rightarrow> (failed, d1)
                                | Some text \<Rightarrow>
                                    (let handwritten_ocr = py_strip text;
                                         d2 = d1\<lparr>files := (files d1)(temp_path := None)\<rparr>
                                     in (\<lparr>handwritten_work_ocr = handwritten_ocr,
                                          combined_work = combine_work typed handwritten_ocr\<rparr>,
                                         d2))))))"

section \<open>Stage 1 (generate_performance_report)\<close>

text \<open>
  The per-question record of the report; the keys of the nested dicts \<open>submission\<close>,
  \<open>kpis\<close> and \<open>optional_work\<close> carry the name of their dict as a prefix.
\<close>

record question_data =
  qd_question_id :: string
  qd_question_type :: string
  qd_difficulty :: string
  qd_concept_tags :: "string list"
  submission_final_answer :: string
  submission_correct_answer :: string
  submission_is_correct :: bool
  submission_changed_answer :: bool
  kpis_time_spent_sec :: int
  kpis_first_attempt_latency_sec :: int
  kpis_num_option_changes :: int
  kpis_revision_outcome :: string
  work_handwritten_uploaded :: bool
  work_typed_work_provided :: bool
  work_typed_work_text :: string
  work_handwritten_work_ocr :: string
  work_combined_work_text :: string

text \<open>
  The report: its id, the score summary and the records. The constant entries of
  \<open>report_meta\<close> and the assessment id are not read by any later stage and are left out.
\<close>

record stage1_report =
  s1_report_id :: string
  raw_score :: int
  max_score :: int
  correct_count :: int
  incorrect_count :: int
  unattempted_count :: int
  s1_questions :: "question_data list"

text \<open>The part of the session state the Stage-1 aggregator reads.\<close>

record quiz_state =
  questions :: "question list"
  responses :: "string \<rightharpoonup> response"
  start_time :: "rat option"
  question_start_times :: "string \<rightharpoonup> rat"
  first_attempt_times :: "string \<rightharpoonup> rat"
  option_changes :: "string \<rightharpoonup> int"
  uploaded_files :: "(string \<rightharpoonup> uploaded) option"

text \<open>The state of the loop: the three counters, the records so far and the disk.\<close>

record stage1_acc =
  acc_correct :: int
  acc_incorrect :: int
  acc_unattempted :: int
  acc_questions_data :: "question_data list"
  acc_disk :: disk

definition stage1_step :: "'e env_scheme \<Rightarrow> 'a quiz_state_scheme \<Rightarrow> stage1_acc \<Rightarrow> nat \<Rightarrow> question \<Rightarrow> stage1_acc" where
  "stage1_step e s acc idx question =
     (let q_id = question_id question;
          resp = responses s q_id;
          uploads = (case uploaded_files s of None \<Rightarrow> Map.empty | Some u \<Rightarrow> u);
          (work, d') = process_student_work e (acc_disk acc) question (responses s) uploads;
          answer = (case resp of None \<Rightarrow> None | Some r \<Rightarrow> final_answer r);
          is_correct = (case answer of
                          None \<Rightarrow> False
                        | Some a \<Rightarrow>
                            if a \<noteq> []
                            then check_answer_with_llm e a (correct_answer question)
                                   (question_text question) (answer_type question)
                            else False);
          time_spent = (case question_start_times s q_id of
                          Some q_start \<Rightarrow> py_int (time_time e idx - q_start)
                        | None \<Rightarrow> 0);
          first_attempt_latency = py_int (case first_attempt_times s q_id of
                                            Some t \<Rightarrow> t | None \<Rightarrow> 0);
          num_changes = (case option_changes s q_id of Some n \<Rightarrow> n | None \<Rightarrow> 0);
          revision_outcome = (if num_changes > 0
                              then (if is_correct then ''improved'' else ''worsened'')
                              else ''none'');
          typed = typed_work_of (responses s) q_id;
          qd = \<lparr>qd_question_id = q_id,
                qd_question_type = question_type question,
                qd_difficulty = difficulty question,
                qd_concept_tags = concept_tags question,
                submission_final_answer = (if truthy_str answer then the answer else []),
                submission_correct_answer = correct_answer question,
                submission_is_correct = is_correct,
                submission_changed_answer =
                  (case resp of
                     None \<Rightarrow> False
                   | Some r \<Rightarrow> (case changed_answer r of None \<Rightarrow> False | Some b \<Rightarrow> b)),
                kpis_time_spent_sec = time_spent,
                kpis_first_attempt_latency_sec = first_attempt_latency,
                kpis_num_option_changes = num_changes,
                kpis_revision_outcome = revision_outcome,
                work_handwritten_uploaded = (q_id \<in> dom uploads),
                work_typed_work_provided = (typed \<noteq> []),
                work_typed_work_text = typed,
                work_handwritten_work_ocr = handwritten_work_ocr work,
                work_combined_work_text = combined_work work\<rparr>
      in \<lparr>acc_correct = (if truthy_str answer \<and> is_correct
                          then acc_correct acc + 1 else acc_correct acc),
          acc_incorrect = (if truthy_str answer \<and> \<not> is_correct
                            then acc_incorrect acc + 1 else acc_incorrect acc),
          acc_unattempted = (if truthy_str answer
                              then acc_unattempted acc else acc_unattempted acc + 1),
          acc_questions_data = acc_questions_data acc @ [qd],
          acc_disk = d'\<rparr>)"

fun stage1_loop :: "'e env_scheme \<Rightarrow> 'a quiz_state_scheme \<Rightarrow> stage1_acc \<Rightarrow> nat \<Rightarrow> question list \<Rightarrow> stage1_acc" where
  "stage1_loop e s acc idx [] = acc"
| "stage1_loop e s acc idx (question # rest) =
     stage1_loop e s (stage1_step e s acc idx question) (Suc idx) rest"

definition generate_performance_report ::
  "'e env_scheme \<Rightarrow> 'a quiz_state_scheme \<Rightarrow> disk \<Rightarrow> stage1_report \<times> disk" where
  "generate_performance_report e s d =
     (let acc = stage1_loop e s
                  \<lparr>acc_correct = 0, acc_incorrect = 0, acc_unattempted = 0,
                   acc_questions_data = [], acc_disk = d\<rparr> 0 (questions s)
      in (\<lparr>s1_report_id = ''rep_'' @ report_stamp e,
           raw_score = acc_correct acc,
           max_score = int (length (questions s)),
           correct_count = acc_correct acc,
           incorrect_count = acc_incorrect acc,
           unattempted_count = acc_unattempted acc,
           s1_questions = acc_questions_data acc\<rparr>,
          acc_disk acc))"

section \<open>Stage 2 (generate_stage2_report)\<close>

text \<open>
  The quotients of the source are float divisions of two integers and the thresholds
  \<open>0.8\<close>, \<open>0.7\<close> and \<open>0.5\<close> are float literals; the model computes with the exact
  rationals. The report stores each index, accuracy and rate through \<open>round(x, 2)\<close>;
  the fields below hold the value before that rounding.
\<close>

definition total_attempted :: "question_data list \<Rightarrow> int" where
  "total_attempted qs = int (length (filter (\<lambda>q. submission_final_answer q \<noteq> []) qs))"

definition easy_questions :: "question_data list \<Rightarrow> question_data list" where
  "easy_questions qs = filter (\<lambda>q. qd_difficulty q = ''easy'') qs"

definition easy_time_threshold :: int where
  "easy_time_threshold = 120"

definition overthinking_count :: "question_data list \<Rightarrow> int" where
  "overthinking_count qs =
     int (length (filter (\<lambda>q. kpis_time_spent_sec q > easy_time_threshold) (easy_questions qs)))"

definition overthinking_index :: "question_data list \<Rightarrow> rat" where
  "overthinking_index qs =
     (if easy_questions qs \<noteq> []
      then of_int (overthinking_count qs) / of_int (int (length (easy_questions qs)))
      else 0)"

definition impulsive_threshold :: int where
  "impulsive_threshold = 20"

definition impulsive_count :: "question_data list \<Rightarrow> int" where
  "impulsive_count qs =
     int (length (filter (\<lambda>q. 0 < kpis_first_attempt_latency_sec q \<and>
                               kpis_first_attempt_latency_sec q < impulsive_threshold) qs))"

definition impulsivity_index :: "question_data list \<Rightarrow> rat" where
  "impulsivity_index qs =
     (if total_attempted qs > 0
      then of_int (impulsive_count qs) / of_int (total_attempted qs)
      else 0)"

text \<open>
  An entry of \<open>concept_data\<close>. The lists of times, latencies and option changes feed
  the means and medians of the concept and its confidence score; these statistics are
  floating-point presentation values that no property below reads, and the concept
  object of the model leaves them out.
\<close>

record concept_entry =
  cd_questions :: "question_data list"
  attempted :: int
  correct :: int
  time_spent :: "int list"
  first_attempt :: "int list"
  cd_option_changes :: "int list"
  changed_answers :: int
  work_evidence :: "string list"

definition new_concept_entry :: concept_entry where
  "new_concept_entry =
     \<lparr>cd_questions = [], attempted = 0, correct = 0, time_spent = [], first_attempt = [],
      cd_option_changes = [], changed_answers = 0, work_evidence = []\<rparr>"

definition add_to_concept :: "question_data \<Rightarrow> concept_entry \<Rightarrow> concept_entry" where
  "add_to_concept q c =
     (let c1 = c\<lparr>cd_questions := cd_questions c @ [q]\<rparr>
      in if submission_final_answer q \<noteq> []
         then c1\<lparr>attempted := attempted c1 + 1,
                 correct := (if submission_is_correct q then correct c1 + 1 else correct c1),
                 time_spent := (if kpis_time_spent_sec q > 0
                                then time_spent c1 @ [kpis_time_spent_sec q]
                                else time_spent c1),
                 first_attempt := (if kpis_first_attempt_latency_sec q > 0
                                   then first_attempt c1 @ [kpis_first_attempt_latency_sec q]
                                   else first_attempt c1),
                 cd_option_changes := cd_option_changes c1 @ [kpis_num_option_changes q],
                 changed_answers := (if submission_changed_answer q
                                     then changed_answers c1 + 1 else changed_answers c1),
                 work_evidence := (if work_typed_work_provided q \<or> work_handwritten_uploaded q
                                   then work_evidence c1 @ [qd_question_id q]
                                   else work_evidence c1)\<rparr>
         else c1)"

text \<open>
  \<open>concept_data\<close> is a dict: an association list in insertion order, in which
  \<open>AList.update\<close> replaces the value of a key in place and appends a new key.
\<close>

definition add_tag :: "question_data \<Rightarrow> (string \<times> concept_entry) list \<Rightarrow> string \<Rightarrow> (string \<times> concept_entry) list" where
  "add_tag q concept_data concept_tag =
     (let c = (case map_of concept_data concept_tag of
                 None \<Rightarrow> new_concept_entry
               | Some c \<Rightarrow> c)
      in AList.update concept_tag (add_to_concept q c) concept_data)"

definition build_concept_data :: "question_data list \<Rightarrow> (string \<times> concept_entry) list" where
  "build_concept_data qs =
     foldl (\<lambda>concept_data q. foldl (add_tag q) concept_data (qd_concept_tags q)) [] qs"

definition work_quality_of :: "concept_entry \<Rightarrow> int" where
  "work_quality_of c =
     (let accuracy = (of_int (correct c) / of_int (attempted c) :: rat);
          evidence = (of_int (int (length (work_evidence c))) :: rat)
      in if evidence \<ge> of_int (attempted c) * (8 / 10)
         then (if accuracy > 7 / 10 then 8 else 6)
         else if evidence \<ge> of_int (attempted c) * (5 / 10)
         then (if accuracy > 5 / 10 then 6 else 4)
         else 3)"

record concept_obj =
  concept_id :: string
  co_attempted :: int
  co_correct :: int
  accuracy :: rat
  work_quality_value :: int
  evidence_count :: int
  evidence_question_ids :: "string list"

definition make_concept_obj :: "string \<Rightarrow> concept_entry \<Rightarrow> concept_obj" where
  "make_concept_obj cid c =
     \<lparr>concept_id = cid,
      co_attempted = attempted c,
      co_correct = correct c,
      accuracy = of_int (correct c) / of_int (attempted c),
      work_quality_value = work_quality_of c,
      evidence_count = int (length (work_evidence c)),
      evidence_question_ids = take 5 (work_evidence c)\<rparr>"

text \<open>The second loop: a concept without an attempted question is skipped.\<close>

fun concepts_list :: "(string \<times> concept_entry) list \<Rightarrow> concept_obj list" where
  "concepts_list [] = []"
| "concepts_list ((cid, c) # rest) =
     (if attempted c = 0 then concepts_list rest
      else make_concept_obj cid c # concepts_list rest)"

record stage2_report =
  s2_report_id :: string
  source_stage1_report_id :: string
  overthinking_index_value :: rat
  easy_time_threshold_sec :: int
  impulsivity_index_value :: rat
  impulsive_threshold_sec :: int
  concepts :: "concept_obj list"

definition generate_stage2_report :: "stage1_report \<Rightarrow> stage2_report" where
  "generate_stage2_report report =
     (let qs = s1_questions report
      in \<lparr>s2_report_id = s1_report_id report @ ''_stage2'',
          source_stage1_report_id = s1_report_id report,
          overthinking_index_value = overthinking_index qs,
          easy_time_threshold_sec = easy_time_threshold,
          impulsivity_index_value = impulsivity_index qs,
          impulsive_threshold_sec = impulsive_threshold,
          concepts = concepts_list (build_concept_data qs)\<rparr>)"

text \<open>
  The reading of the specification. An attempted question is one with a non-empty final
  answer; the impulsivity index is the fraction of the attempted questions whose latency
  lies strictly between 0 and 20; the overthinking index is the fraction of the easy
  questions, attempted or not, whose time exceeds 120.
\<close>

definition spec_attempted :: "question_data list \<Rightarrow> question_data list" where
  "spec_attempted qs = filter (\<lambda>q. submission_final_answer q \<noteq> []) qs"

definition spec_impulsivity :: "question_data list \<Rightarrow> rat" where
  "spec_impulsivity qs =
     (if spec_attempted qs = [] then 0
      else of_nat (length (filter (\<lambda>q. 0 < kpis_first_attempt_latency_sec q \<and>
                                         kpis_first_attempt_latency_sec q < 20)
                             (spec_attempted qs)))
           / of_nat (length (spec_attempted qs)))"

definition spec_overthinking :: "question_data list \<Rightarrow> rat" where
  "spec_overthinking qs =
     (if filter (\<lambda>q. qd_difficulty q = ''easy'') qs = [] then 0
      else of_nat (length (filter (\<lambda>q. qd_difficulty q = ''easy'' \<and> kpis_time_spent_sec q > 120) qs))
           / of_nat (length (filter (\<lambda>q. qd_difficulty q = ''easy'') qs)))"

section \<open>Stage 3 (generate_stage3_report_with_llm)\<close>

text \<open>
  The prompt is built from the two reports and sent to the model. \<open>stage3_reply\<close> is
  the text of the answer to that prompt, \<open>None\<close> when creating the client, the call or
  reading the text raises. The function reads its two arguments and changes neither. Its
  result is a parsed value, in which \<open>JNull\<close> is Python's \<open>None\<close>.
\<close>

record world = env +
  stage3_reply :: "stage2_report \<Rightarrow> stage1_report \<Rightarrow> string option"

definition strip_code_fence :: "string \<Rightarrow> string" where
  "strip_code_fence response_text =
     (if py_startswith response_text ''```json''
      then py_strip (py_replace ''```'' [] (py_replace ''```json'' [] response_text))
      else if py_startswith response_text ''```''
      then py_strip (py_replace ''```'' [] response_text)
      else response_text)"

definition generate_stage3_report_with_llm :: "world \<Rightarrow> stage2_report \<Rightarrow> stage1_report \<Rightarrow> json" where
  "generate_stage3_report_with_llm w stage2 stage1 =
     (if \<not> truthy_str (GEMINI_API_KEY w) then JNull
      else case stage3_reply w stage2 stage1 of
        None \<Rightarrow> JNull
      | Some text \<Rightarrow>
          (case json_loads w (strip_code_fence (py_strip text)) of
             None \<Rightarrow> JNull
           | Some stage3_report \<Rightarrow> stage3_report))"

section \<open>The session and its pages\<close>

text \<open>
  \<open>st.session_state\<close>: the quiz state above and the keys of the shell. The three report
  keys and \<open>report_file\<close> exist only after a successful submission.
\<close>

record session = quiz_state +
  page :: string
  selected_topic :: "string option"
  num_questions :: int
  current_question_idx :: int
  marked_for_review :: "string set option"
  stage1_report :: "stage1_report option"
  stage2_report :: "stage2_report option"
  final_report :: "json option"
  report_file :: "string option"

definition initialize_session_state :: session where
  "initialize_session_state =
     \<lparr>questions = [], responses = Map.empty, start_time = None,
      question_start_times = Map.empty, first_attempt_times = Map.empty,
      option_changes = Map.empty, uploaded_files = None,
      page = ''home'', selected_topic = None, num_questions = 10,
      current_question_idx = 0, marked_for_review = None,
      stage1_report = None, stage2_report = None, final_report = None,
      report_file = None\<rparr>"

text \<open>
  One run of the script sees the widgets as the user left them: at most one button is
  pressed, and the other widgets hold their values. \<open>fetched_questions\<close> is what
  \<open>get_questions_from_db\<close> returns in this run, \<open>now\<close> the clock, and \<open>image_opens\<close>
  says whether \<open>Image.open\<close> accepts the uploaded bytes (an exception ends the run).
\<close>

datatype button =
    NoButton
  | TopicButton string
  | StartQuiz
  | BackToHome
  | NavButton nat
  | Previous
  | MarkReview
  | Next
  | FinishQuiz
  | BackToQuiz
  | SubmitQuiz

record user_input =
  pressed :: button
  slider_value :: int
  fetched_questions :: "question list"
  now :: rat
  numerical_answer :: string
  uploaded_file :: "uploaded option"
  image_opens :: bool
  typed_work_area :: string

definition topic_names :: "string list" where
  "topic_names = [''Algebra'', ''Combinatorics'', ''Calculus'', ''Number Theory'',
                  ''Geometry'', ''Miscellaneous'']"

definition render_home_page :: "user_input \<Rightarrow> session \<Rightarrow> session" where
  "render_home_page inp s =
     (if (\<exists>t \<in> set topic_names. pressed inp = TopicButton t)
      then (case pressed inp of TopicButton t \<Rightarrow> s\<lparr>selected_topic := Some t\<rparr> | _ \<Rightarrow> s)
      else
        (let s1 = s\<lparr>num_questions := slider_value inp\<rparr>
         in if truthy_str (selected_topic s1) \<and> pressed inp = StartQuiz
            then (let s2 = s1\<lparr>questions := fetched_questions inp\<rparr>
                  in if questions s2 = [] then s2
                     else s2\<lparr>start_time := Some (now inp),
                             current_question_idx := 0,
                             responses := Map.empty,
                             question_start_times := Map.empty,
                             first_attempt_times := Map.empty,
                             option_changes := Map.empty,
                             page := ''quiz''\<rparr>)
            else s1))"

text \<open>\<open>xs[i]\<close> with Python's negative indices; \<open>None\<close> is the IndexError.\<close>

definition py_index :: "'a list \<Rightarrow> int \<Rightarrow> 'a option" where
  "py_index xs i =
     (if 0 \<le> i \<and> i < int (length xs) then Some (xs ! nat i)
      else if i < 0 \<and> - int (length xs) \<le> i then Some (xs ! nat (int (length xs) + i))
      else None)"

text \<open>
  The answer box: the block that runs when the box holds a new non-empty answer. The page
  has stored the start time of the question before; were it missing, the KeyError would
  end the run with the state unchanged.
\<close>

definition record_answer :: "user_input \<Rightarrow> string \<Rightarrow> session \<Rightarrow> session" where
  "record_answer inp q_id s =
     (let prev_answer = (case responses s q_id of
                           None \<Rightarrow> []
                         | Some r \<Rightarrow> (case final_answer r of None \<Rightarrow> [] | Some a \<Rightarrow> a))
      in if numerical_answer inp \<noteq> [] \<and> numerical_answer inp \<noteq> prev_answer
         then (case question_start_times s q_id of
                 None \<Rightarrow> s
               | Some q_start \<Rightarrow>
                   (let s1 = (if q_id \<notin> dom (first_attempt_times s)
                              then s\<lparr>first_attempt_times :=
                                       (first_attempt_times s)(q_id \<mapsto> now inp - q_start)\<rparr>
                              else s);
                        changes = (case option_changes s1 q_id of None \<Rightarrow> 0 | Some n \<Rightarrow> n + 1);
                        s2 = s1\<lparr>option_changes := (option_changes s1)(q_id \<mapsto> changes)\<rparr>
                    in s2\<lparr>responses := (responses s2)
                             (q_id \<mapsto> \<lparr>final_answer = Some (numerical_answer inp),
                                       changed_answer = Some (changes > 0),
                                       timestamp = Some (now inp),
                                       typed_work = None\<rparr>)\<rparr>))
         else s)"

definition record_upload :: "user_input \<Rightarrow> string \<Rightarrow> session \<Rightarrow> session" where
  "record_upload inp q_id s =
     (case uploaded_file inp of
        None \<Rightarrow> s
      | Some up \<Rightarrow>
          (let ups = (case uploaded_files s of None \<Rightarrow> Map.empty | Some u \<Rightarrow> u)
           in s\<lparr>uploaded_files := Some (ups(q_id \<mapsto> up))\<rparr>))"

definition record_typed_work :: "user_input \<Rightarrow> string \<Rightarrow> session \<Rightarrow> session" where
  "record_typed_work inp q_id s =
     (if typed_work_area inp \<noteq> []
      then (case responses s q_id of
              Some r \<Rightarrow> s\<lparr>responses := (responses s)
                           (q_id \<mapsto> r\<lparr>typed_work := Some (typed_work_area inp)\<rparr>)\<rparr>
            | None \<Rightarrow> s\<lparr>responses := (responses s)
                          (q_id \<mapsto> \<lparr>final_answer = None, changed_answer = None,
                                    timestamp = None,
                                    typed_work = Some (typed_work_area inp)\<rparr>)\<rparr>)
      else s)"

definition quiz_buttons :: "user_input \<Rightarrow> string \<Rightarrow> session \<Rightarrow> session" where
  "quiz_buttons inp q_id s =
     (if pressed inp = Previous \<and> current_question_idx s > 0
      then s\<lparr>current_question_idx := current_question_idx s - 1\<rparr>
      else if pressed inp = MarkReview
      then (let marked = (case marked_for_review s of None \<Rightarrow> {} | Some m \<Rightarrow> m)
            in if q_id \<in> marked then s\<lparr>marked_for_review := Some (marked - {q_id})\<rparr>
               else s\<lparr>marked_for_review := Some (insert q_id marked)\<rparr>)
      else if current_question_idx s < int (length (questions s)) - 1
      then (if pressed inp = Next
            then s\<lparr>current_question_idx := current_question_idx s + 1\<rparr> else s)
      else (if pressed inp = FinishQuiz then s\<lparr>page := ''submit''\<rparr> else s))"

definition render_quiz_page :: "user_input \<Rightarrow> session \<Rightarrow> session" where
  "render_quiz_page inp s =
     (if questions s = []
      then (if pressed inp = BackToHome then s\<lparr>page := ''home''\<rparr> else s)
      else if (\<exists>i < length (questions s).
                 pressed inp = NavButton i \<and> int i \<noteq> current_question_idx s)
      then (case pressed inp of NavButton i \<Rightarrow> s\<lparr>current_question_idx := int i\<rparr> | _ \<Rightarrow> s)
      else (case py_index (questions s) (current_question_idx s) of
              None \<Rightarrow> s
            | Some current_question \<Rightarrow>
                (let q_id = question_id current_question;
                     s1 = (if q_id \<notin> dom (question_start_times s)
                           then s\<lparr>question_start_times :=
                                    (question_start_times s)(q_id \<mapsto> now inp)\<rparr>
                           else s);
                     s2 = record_answer inp q_id s1;
                     s3 = record_upload inp q_id s2
                 in if uploaded_file inp \<noteq> None \<and> \<not> image_opens inp then s3
                    else quiz_buttons inp q_id (record_typed_work inp q_id s3))))"

text \<open>
  The handler of the submit button. The plan is stored only when it is truthy; reading
  \<open>stage3_report['report_meta']['report_id']\<close> can raise after the directory was made,
  which ends the run. Writing the report file is taken to succeed.
\<close>

definition submit_quiz :: "world \<Rightarrow> session \<Rightarrow> disk \<Rightarrow> session \<times> disk" where
  "submit_quiz w s d =
     (let (stage1, d1) = generate_performance_report w s d;
          stage2 = generate_stage2_report stage1;
          stage3 = generate_stage3_report_with_llm w stage2 stage1
      in if json_truthy stage3
         then (let d2 = d1\<lparr>dirs := insert ''quiz_reports'' (dirs d1)\<rparr>
               in case json_get stage3 ''report_meta'' of
                    None \<Rightarrow> (s, d2)
                  | Some meta \<Rightarrow>
                      (case json_get meta ''report_id'' of
                         None \<Rightarrow> (s, d2)
                       | Some rid \<Rightarrow>
                           (let path = ''quiz_reports/performance_report_'' @ py_str w rid @ ''.json'';
                                d3 = d2\<lparr>files := (files d2)(path \<mapsto> json_dumps w stage3)\<rparr>
                            in (s\<lparr>stage1_report := Some stage1,
                                  stage2_report := Some stage2,
                                  final_report := Some stage3,
                                  report_file := Some path,
                                  page := ''results''\<rparr>, d3))))
         else (s, d1))"

definition render_submit_page :: "world \<Rightarrow> user_input \<Rightarrow> session \<Rightarrow> disk \<Rightarrow> session \<times> disk" where
  "render_submit_page w inp s d =
     (if pressed inp = BackToQuiz then (s\<lparr>page := ''quiz''\<rparr>, d)
      else if pressed inp = SubmitQuiz then submit_quiz w s d
      else (s, d))"

text \<open>
  The results page changes the session only through its last button. Its display code can
  raise on a malformed plan before the button is drawn; the model lets the button be
  pressed in every case, which only adds runs.
\<close>

definition render_results_page :: "user_input \<Rightarrow> session \<Rightarrow> session" where
  "render_results_page inp s =
     (if pressed inp = BackToHome
      then s\<lparr>page := ''home'', questions := [], responses := Map.empty,
             current_question_idx := 0, selected_topic := None\<rparr>
      else s)"

definition main :: "world \<Rightarrow> user_input \<Rightarrow> session \<times> disk \<Rightarrow> session \<times> disk" where
  "main w inp sd =
     (let s = fst sd; d = snd sd
      in if page s = ''home'' then (render_home_page inp s, d)
         else if page s = ''quiz'' then (render_quiz_page inp s, d)
         else if page s = ''submit'' then render_submit_page w inp s d
         else if page s = ''results'' then (render_results_page inp s, d)
         else (s, d))"

text \<open>
  The sessions the program can be in: the initial one, and the result of any run of the
  script, in any world, on any input of the user, from a session it can be in.
\<close>

inductive reachable :: "session \<Rightarrow> bool" where
  start: "reachable initialize_session_state"
| run: "reachable s \<Longrightarrow> reachable (fst (main w inp (s, d)))"

section \<open>Invariants of the session\<close>

text \<open>
  A question is answered when its response holds a non-empty final answer. Outside the
  home page every question with a recorded first-attempt time is answered, and on every
  page the recorded numbers of option changes are not negative.
\<close>

definition answered :: "'a quiz_state_scheme \<Rightarrow> string \<Rightarrow> bool" where
  "answered s q = (case responses s q of None \<Rightarrow> False | Some r \<Rightarrow> truthy_str (final_answer r))"

definition first_attempts_answered :: "'a quiz_state_scheme \<Rightarrow> bool" where
  "first_attempts_answered s = (\<forall>q \<in> dom (first_attempt_times s). answered s q)"

definition changes_nonneg :: "'a quiz_state_scheme \<Rightarrow> bool" where
  "changes_nonneg s = (\<forall>q n. option_changes s q = Some n \<longrightarrow> 0 \<le> n)"

definition session_inv :: "session \<Rightarrow> bool" where
  "session_inv s = ((page s \<noteq> ''home'' \<longrightarrow> first_attempts_answered s) \<and> changes_nonneg s)"

section \<open>Sample data\<close>

definition sample_question :: question where
  "sample_question =
     \<lparr>question_id = ''OLY_1'', question_type = ''numerical'', difficulty = ''easy'',
      concept_tags = [''ALGEBRA''], question_text = ''2+2'', correct_answer = ''4'',
      answer_type = ''integer''\<rparr>"

text \<open>A world without credential, in which every service call fails.\<close>

definition offline_world :: world where
  "offline_world =
     \<lparr>GEMINI_API_KEY = None, json_loads = (\<lambda>t. None), py_str = (\<lambda>v. []),
      json_dumps = (\<lambda>v. []), judge_reply = (\<lambda>a b c d. None), b64decode = Some,
      files_upload = (\<lambda>path content. None), ocr_reply = (\<lambda>h. None),
      time_time = (\<lambda>i. 300), report_stamp = ''2026_01_01_000000'',
      stage3_reply = (\<lambda>r2 r1. None)\<rparr>"

text \<open>A world with a credential in which every call succeeds.\<close>

definition online_world :: world where
  "online_world =
     offline_world\<lparr>GEMINI_API_KEY := Some ''key'',
                   files_upload := (\<lambda>path content. Some ''handle''),
                   ocr_reply := (\<lambda>h. Some ''x = 2'')\<rparr>"

text \<open>A world with a credential in which the upload of the image raises.\<close>

definition upload_fails_world :: world where
  "upload_fails_world = offline_world\<lparr>GEMINI_API_KEY := Some ''key''\<rparr>"

text \<open>A world with a credential in which the model answers Stage 3 with text that is no JSON.\<close>

definition garbled_world :: world where
  "garbled_world = online_world\<lparr>stage3_reply := (\<lambda>r2 r1. Some ''Sorry, no plan.'')\<rparr>"

text \<open>A world with a credential in which the judging model answers INCORRECT.\<close>

definition rejecting_world :: world where
  "rejecting_world = online_world\<lparr>judge_reply := (\<lambda>a b c d. Some ''INCORRECT'')\<rparr>"

definition empty_disk :: disk where
  "empty_disk = \<lparr>files = Map.empty, dirs = {}\<rparr>"

definition idle :: user_input where
  "idle =
     \<lparr>pressed = NoButton, slider_value = 10, fetched_questions = [], now = 0,
      numerical_answer = [], uploaded_file = None, image_opens = True,
      typed_work_area = []\<rparr>"

text \<open>Two more questions of the same quiz.\<close>

definition second_question :: question where
  "second_question =
     \<lparr>question_id = ''OLY_2'', question_type = ''numerical'', difficulty = ''medium'',
      concept_tags = [''ALGEBRA''], question_text = ''3*3'', correct_answer = ''9'',
      answer_type = ''integer''\<rparr>"

definition third_question :: question where
  "third_question =
     \<lparr>question_id = ''OLY_3'', question_type = ''numerical'', difficulty = ''hard'',
      concept_tags = [''GEOMETRY''], question_text = ''area'', correct_answer = ''12'',
      answer_type = ''integer''\<rparr>"

text \<open>
  A run of the program up to the submit page, state by state. The user picks Algebra and
  starts a quiz of three questions at time 100; sees the first question, answers it with
  5 after five seconds, changes the answer to 4 and goes on; sees the second question at
  time 140 and answers it with 8 fifty seconds later; jumps to the third question, leaves
  it open and finishes at time 200.
\<close>

definition answer_entry :: "string \<Rightarrow> bool \<Rightarrow> rat \<Rightarrow> response" where
  "answer_entry a changed t =
     \<lparr>final_answer = Some a, changed_answer = Some changed, timestamp = Some t,
      typed_work = None\<rparr>"

definition state_topic :: session where
  "state_topic = initialize_session_state\<lparr>selected_topic := Some ''Algebra''\<rparr>"

definition state_started :: session where
  "state_started =
     state_topic\<lparr>questions := [sample_question, second_question, third_question],
                 start_time := Some 100, page := ''quiz''\<rparr>"

definition state_shown_1 :: session where
  "state_shown_1 = state_started\<lparr>question_start_times := [''OLY_1'' \<mapsto> 100]\<rparr>"

definition state_answered_1 :: session where
  "state_answered_1 =
     state_shown_1\<lparr>first_attempt_times := [''OLY_1'' \<mapsto> 5],
                   option_changes := [''OLY_1'' \<mapsto> 0],
                   responses := [''OLY_1'' \<mapsto> answer_entry ''5'' False 105]\<rparr>"

definition state_revised_1 :: session where
  "state_revised_1 =
     state_answered_1\<lparr>option_changes := [''OLY_1'' \<mapsto> 1],
                      responses := [''OLY_1'' \<mapsto> answer_entry ''4'' True 130],
                      current_question_idx := 1\<rparr>"

definition state_shown_2 :: session where
  "state_shown_2 =
     state_revised_1\<lparr>question_start_times := [''OLY_1'' \<mapsto> 100, ''OLY_2'' \<mapsto> 140]\<rparr>"

definition state_answered_2 :: session where
  "state_answered_2 =
     state_shown_2\<lparr>first_attempt_times := [''OLY_1'' \<mapsto> 5, ''OLY_2'' \<mapsto> 50],
                   option_changes := [''OLY_1'' \<mapsto> 1, ''OLY_2'' \<mapsto> 0],
                   responses := [''OLY_1'' \<mapsto> answer_entry ''4'' True 130,
                                 ''OLY_2'' \<mapsto> answer_entry ''8'' False 190]\<rparr>"

definition state_jumped :: session where
  "state_jumped = state_answered_2\<lparr>current_question_idx := 2\<rparr>"

definition sample_session :: session where
  "sample_session =
     state_jumped\<lparr>question_start_times :=
                    [''OLY_1'' \<mapsto> 100, ''OLY_2'' \<mapsto> 140, ''OLY_3'' \<mapsto> 200],
                  page := ''submit''\<rparr>"

text \<open>A non-empty solution text of a given length.\<close>

definition solution_of_length :: "nat \<Rightarrow> string option" where
  "solution_of_length n = Some (replicate n CHR ''x'')"

text \<open>
  A world whose parser accepts two payloads, an object and a list, and rejects every other
  text.
\<close>

definition sample_loads :: "string \<Rightarrow> json option" where
  \<open>sample_loads t =
     (if t = ''{"value": 3, "number": 5}'' then Some (JDict [(''value'', JInt 3), (''number'', JInt 5)])
      else if t = ''[7, 8]'' then Some (JList [JInt 7, JInt 8])
      else None)\<close>

fun sample_str :: "json \<Rightarrow> string" where
  "sample_str (JInt i) = (if i = 3 then ''3'' else if i = 7 then ''7'' else ''int'')"
| "sample_str v = ''other''"

definition parsing_world :: world where
  "parsing_world = offline_world\<lparr>json_loads := sample_loads, py_str := sample_str\<rparr>"

text \<open>Typed work and an uploaded image for the sample question.\<close>

definition sample_responses :: "string \<rightharpoonup> response" where
  "sample_responses =
     [''OLY_1'' \<mapsto> \<lparr>final_answer = None, changed_answer = None, timestamp = None,
                     typed_work = Some ''x + x''\<rparr>]"

definition sample_uploads :: "string \<rightharpoonup> uploaded" where
  "sample_uploads = [''OLY_1'' \<mapsto> \<lparr>filename = ''work.jpg'', data = ''AAAA''\<rparr>]"

text \<open>
  The end-to-end scenario of the specification: three easy questions tagged ALGEBRA; the
  first answered correctly within 30 seconds, the second answered correctly after one
  revision and 150 seconds, the third not attempted.
\<close>

definition scenario_record :: "string \<Rightarrow> string \<Rightarrow> bool \<Rightarrow> int \<Rightarrow> int \<Rightarrow> int \<Rightarrow> string \<Rightarrow> question_data" where
  "scenario_record q_id answer ok spent latency changes outcome =
     \<lparr>qd_question_id = q_id, qd_question_type = ''numerical'', qd_difficulty = ''easy'',
      qd_concept_tags = [''ALGEBRA''], submission_final_answer = answer,
      submission_correct_answer = ''4'', submission_is_correct = ok,
      submission_changed_answer = (changes > 0), kpis_time_spent_sec = spent,
      kpis_first_attempt_latency_sec = latency, kpis_num_option_changes = changes,
      kpis_revision_outcome = outcome, work_handwritten_uploaded = False,
      work_typed_work_provided = False, work_typed_work_text = [],
      work_handwritten_work_ocr = [], work_combined_work_text = []\<rparr>"

definition scenario_report :: stage1_report where
  "scenario_report =
     \<lparr>s1_report_id = ''rep_scenario'', raw_score = 2, max_score = 3, correct_count = 2,
      incorrect_count = 0, unattempted_count = 1,
      s1_questions =
        [scenario_record ''Q1'' ''4'' True 30 12 0 ''none'',
         scenario_record ''Q2'' ''4'' True 150 40 1 ''improved'',
         scenario_record ''Q3'' [] False 0 0 0 ''none'']\<rparr>"

section \<open>Properties of the question store adapter and the judge\<close>

text \<open>
  Claim C4, as amended. The difficulty heuristic of the first store labels solution texts
  of lengths 49, 200 and 501 as easy, medium and hard: the test for easy is
  \<open>sol_len < 200\<close>, which a text of exactly 200 characters does not pass.
\<close>

theorem olympiad_difficulty_lengths:
  "length a = 49 \<and> length b = 200 \<and> length c = 501 \<longrightarrow>
     olympiad_difficulty (Some a) = ''easy'' \<and>
     olympiad_difficulty (Some b) = ''medium'' \<and>
     olympiad_difficulty (Some c) = ''hard''"
  by (auto simp: olympiad_difficulty_def)

theorem olympiad_difficulty_lengths_witness:
  "olympiad_difficulty (solution_of_length 49) = ''easy'' \<and>
   olympiad_difficulty (solution_of_length 200) = ''medium'' \<and>
   olympiad_difficulty (solution_of_length 501) = ''hard''"
  using olympiad_difficulty_lengths [where a = "replicate 49 CHR ''x''"
      and b = "replicate 200 CHR ''x''" and c = "replicate 501 CHR ''x''"]
  by (simp add: solution_of_length_def)

text \<open>The claim as stated fails: a solution of 200 characters is not labelled easy.\<close>

theorem olympiad_difficulty_200_counterexample:
  "olympiad_difficulty (solution_of_length 200) \<noteq> ''easy''"
  by (simp add: olympiad_difficulty_def solution_of_length_def)

lemma py_strip_half: "py_strip ''1/2'' = ''1/2''" "py_strip ''0.5'' = ''0.5''"
  by (simp_all add: py_strip_def py_isspace_def)

lemma py_lower_half: "py_lower ''1/2'' = ''1/2''" "py_lower ''0.5'' = ''0.5''"
  by (simp_all add: py_lower_def py_lower_char_def)

text \<open>
  Claim C5. When no credential is configured (the variable is unset or empty), the judge
  compares the two answers after \<open>strip\<close> and \<open>lower\<close>; it accepts 1/2 against 1/2 and
  rejects 0.5 against 1/2, for every question text and answer type.
\<close>

theorem check_answer_fallback:
  assumes "\<not> truthy_str (GEMINI_API_KEY e)"
  shows "check_answer_with_llm e student expected q t
           = (py_lower (py_strip student) = py_lower (py_strip expected)) \<and>
         check_answer_with_llm e ''1/2'' ''1/2'' q t \<and>
         \<not> check_answer_with_llm e ''0.5'' ''1/2'' q t"
  using assms by (simp add: check_answer_with_llm_def py_strip_half py_lower_half)

theorem check_answer_fallback_witness:
  "\<not> truthy_str (GEMINI_API_KEY offline_world) \<and>
   check_answer_with_llm offline_world '' X+1 '' ''x+1'' ''q'' ''expression'' \<and>
   check_answer_with_llm offline_world ''1/2'' ''1/2'' ''q'' ''expression'' \<and>
   \<not> check_answer_with_llm offline_world ''0.5'' ''1/2'' ''q'' ''expression''"
proof -
  have k: "\<not> truthy_str (GEMINI_API_KEY offline_world)"
    by (simp add: offline_world_def truthy_str_def)
  have "py_lower (py_strip '' X+1 '') = py_lower (py_strip ''x+1'')"
    by code_simp
  with k check_answer_fallback [OF k, where student = "'' X+1 ''" and expected = "''x+1''"
      and q = "''q''" and t = "''expression''"]
  show ?thesis by simp
qed

text \<open>
  On the service path the verdict is the substring test \<open>"CORRECT" in result\<close>, and
  the word INCORRECT contains CORRECT: a reply of INCORRECT counts as a correct answer.
\<close>

lemma incorrect_reply_is_accepted:
  "check_answer_with_llm rejecting_world ''5'' ''4'' ''2+2'' ''integer''"
proof -
  have "py_in ''CORRECT'' (py_upper (py_strip ''INCORRECT''))"
    by code_simp
  then show ?thesis
    by (simp add: check_answer_with_llm_def rejecting_world_def online_world_def
        offline_world_def truthy_str_def)
qed

section \<open>Properties of the answer extraction\<close>

lemma first_key_value_find:
  "first_key_value kvs keys =
     (case List.find (\<lambda>k. k \<in> fst ` set kvs) keys of None \<Rightarrow> None | Some k \<Rightarrow> map_of kvs k)"
proof (induction keys)
  case Nil
  then show ?case by simp
next
  case (Cons k keys)
  show ?case
  proof (cases "map_of kvs k")
    case None
    then have "k \<notin> fst ` set kvs" by (simp add: map_of_eq_None_iff)
    with None Cons show ?thesis by simp
  next
    case (Some v)
    then have "k \<in> fst ` set kvs" by (metis map_of_eq_None_iff option.distinct(1))
    with Some show ?thesis by simp
  qed
qed

lemma spec_first_present_unfold:
  "spec_first_present kvs (spec_candidate_keys t) =
     (case map_of kvs ''answer'' of
        Some v \<Rightarrow> Some v
      | None \<Rightarrow> (case map_of kvs ''value'' of
           Some v \<Rightarrow> Some v
         | None \<Rightarrow> if t = ''integer'' \<or> t = ''float''
                   then first_key_value kvs [''number'', ''numerical_value'', ''result'']
                   else None))"
proof -
  have "spec_first_present kvs keys = first_key_value kvs keys" for keys
    by (simp add: spec_first_present_def first_key_value_find)
  then show ?thesis
    by (simp add: spec_candidate_keys_def split: option.splits)
qed

text \<open>
  Claim C6, as amended. For a dict payload the extractor returns the stringified value at
  the first present key among answer, value and, only for the answer types integer and
  float, number, numerical_value, result (the stringified dict when none is present); for
  a non-empty list the stringified first element; for a non-empty input that is not
  valid JSON the input unchanged; and for the empty input no result at all.
\<close>

theorem extract_answer_from_json_cases:
  "(s \<noteq> [] \<and> json_loads e s = Some (JDict kvs) \<longrightarrow>
      extract_answer_from_json e s t =
        Some (py_str e (case spec_first_present kvs (spec_candidate_keys t) of
                          Some v \<Rightarrow> v
                        | None \<Rightarrow> JDict kvs))) \<and>
   (s \<noteq> [] \<and> json_loads e s = Some (JList (x # xs)) \<longrightarrow>
      extract_answer_from_json e s t = Some (py_str e x)) \<and>
   (s \<noteq> [] \<and> json_loads e s = None \<longrightarrow> extract_answer_from_json e s t = Some s) \<and>
   extract_answer_from_json e [] t = None"
  unfolding spec_first_present_unfold
  by (auto simp: extract_answer_from_json_def split: option.splits)

theorem extract_answer_from_json_cases_witness:
  \<open>extract_answer_from_json parsing_world ''{"value": 3, "number": 5}'' ''integer'' = Some ''3'' \<and>
   extract_answer_from_json parsing_world ''[7, 8]'' ''integer'' = Some ''7'' \<and>
   extract_answer_from_json parsing_world ''1/2'' ''integer'' = Some ''1/2'' \<and>
   extract_answer_from_json parsing_world [] ''integer'' = None\<close>
proof -
  have a: \<open>json_loads parsing_world ''{"value": 3, "number": 5}''
             = Some (JDict [(''value'', JInt 3), (''number'', JInt 5)])\<close>
    by (simp add: parsing_world_def offline_world_def sample_loads_def)
  have b: "json_loads parsing_world ''[7, 8]'' = Some (JList (JInt 7 # [JInt 8]))"
    by (simp add: parsing_world_def offline_world_def sample_loads_def)
  have c: "json_loads parsing_world ''1/2'' = None"
    by (simp add: parsing_world_def offline_world_def sample_loads_def)
  have p: "py_str parsing_world = sample_str"
    by (simp add: parsing_world_def offline_world_def)
  have f: "spec_first_present [(''value'', JInt 3), (''number'', JInt 5)]
             (spec_candidate_keys ''integer'') = Some (JInt 3)"
    by (simp add: spec_first_present_def spec_candidate_keys_def)
  show ?thesis
    using extract_answer_from_json_cases [where s = \<open>''{"value": 3, "number": 5}''\<close>
          and e = parsing_world and kvs = "[(''value'', JInt 3), (''number'', JInt 5)]"
          and t = "''integer''"]
      extract_answer_from_json_cases [where s = "''[7, 8]''" and e = parsing_world
          and t = "''integer''" and x = "JInt 7" and xs = "[JInt 8]"]
      extract_answer_from_json_cases [where s = "''1/2''" and e = parsing_world
          and t = "''integer''"]
      a b c p f
    by simp
qed

text \<open>
  The claim as stated fails on the empty input: it is not valid JSON, and the extractor
  returns no result instead of the input.
\<close>

theorem extract_answer_from_json_empty_counterexample:
  "json_loads offline_world [] = None \<and>
   extract_answer_from_json offline_world [] ''integer'' \<noteq> Some []"
  by (simp add: extract_answer_from_json_def offline_world_def)

section \<open>Properties of the work transcription\<close>

lemma sample_typed: "typed_work_of sample_responses ''OLY_1'' = ''x + x''"
  by (simp add: typed_work_of_def sample_responses_def)

lemma strip_sample: "py_strip ''x = 2'' = ''x = 2''"
  by code_simp

text \<open>
  Claim C7, as amended. For a question without uploaded image the transcription returns
  an empty OCR text and the typed work as combined text, and leaves the disk alone. When
  the credential is set and decoding, upload and transcription succeed, the OCR text is
  the stripped reply, and the combined text is
  \<open>**Typed Work:**\n{typed}\n\n**Handwritten Work (OCR):**\n{ocr}\<close>, with the markdown
  bold markers, when both texts are non-empty, else the OCR text when it is non-empty,
  else the typed work.
\<close>

theorem process_student_work_results:
  "(uploads (question_id qn) = None \<longrightarrow>
      process_student_work e d qn resps uploads =
        (\<lparr>handwritten_work_ocr = [], combined_work = typed_work_of resps (question_id qn)\<rparr>, d)) \<and>
   (uploads (question_id qn) = Some up \<and> truthy_str (GEMINI_API_KEY e) \<and>
    b64decode e (data up) = Some image_bytes \<and>
    files_upload e (temp_path_of (question_id qn)) image_bytes = Some handle \<and>
    ocr_reply e handle = Some reply \<longrightarrow>
      fst (process_student_work e d qn resps uploads) =
        (let typed = typed_work_of resps (question_id qn); ocr = py_strip reply
         in \<lparr>handwritten_work_ocr = ocr,
             combined_work =
               (if typed \<noteq> [] \<and> ocr \<noteq> []
                then ''**Typed Work:**'' @ [CHR 0x0A] @ typed @ [CHR 0x0A, CHR 0x0A] @
                     ''**Handwritten Work (OCR):**'' @ [CHR 0x0A] @ ocr
                else if ocr \<noteq> [] then ocr else typed)\<rparr>))"
  by (simp add: process_student_work_def combine_work_def Let_def)

theorem process_student_work_results_witness:
  "process_student_work online_world empty_disk sample_question sample_responses Map.empty =
     (\<lparr>handwritten_work_ocr = [], combined_work = ''x + x''\<rparr>, empty_disk) \<and>
   fst (process_student_work online_world empty_disk sample_question sample_responses sample_uploads) =
     \<lparr>handwritten_work_ocr = ''x = 2'',
      combined_work = ''**Typed Work:**'' @ [CHR 0x0A] @ ''x + x'' @ [CHR 0x0A, CHR 0x0A] @
                      ''**Handwritten Work (OCR):**'' @ [CHR 0x0A] @ ''x = 2''\<rparr>"
proof -
  have q: "question_id sample_question = ''OLY_1''"
    by (simp add: sample_question_def)
  have hyps: "sample_uploads (question_id sample_question)
                = Some \<lparr>filename = ''work.jpg'', data = ''AAAA''\<rparr> \<and>
      truthy_str (GEMINI_API_KEY online_world) \<and>
      b64decode online_world (data \<lparr>filename = ''work.jpg'', data = ''AAAA''\<rparr>) = Some ''AAAA'' \<and>
      files_upload online_world (temp_path_of (question_id sample_question)) ''AAAA''
        = Some ''handle'' \<and>
      ocr_reply online_world ''handle'' = Some ''x = 2''"
    by (simp add: q sample_uploads_def online_world_def offline_world_def truthy_str_def)
  show ?thesis
    using process_student_work_results [where uploads = Map.empty and qn = sample_question
          and e = online_world and d = empty_disk and resps = sample_responses]
      process_student_work_results [where uploads = sample_uploads and qn = sample_question
          and e = online_world and d = empty_disk and resps = sample_responses
          and up = "\<lparr>filename = ''work.jpg'', data = ''AAAA''\<rparr>"
          and image_bytes = "''AAAA''" and handle = "''handle''" and reply = "''x = 2''"]
      hyps
    by (simp add: q sample_typed strip_sample Let_def)
qed

text \<open>
  The claim as stated fails: with typed work \<open>x + x\<close> and the transcription \<open>x = 2\<close> the
  combined text is not the plain format of the claim.
\<close>

theorem combined_work_format_counterexample:
  "combined_work (fst (process_student_work online_world empty_disk sample_question
                         sample_responses sample_uploads))
     \<noteq> ''Typed Work:'' @ [CHR 0x0A] @ ''x + x'' @ [CHR 0x0A, CHR 0x0A] @
        ''Handwritten Work (OCR):'' @ [CHR 0x0A] @ ''x = 2''"
  by (simp add: process_student_work_def combine_work_def Let_def sample_typed strip_sample
      sample_question_def sample_uploads_def online_world_def offline_world_def truthy_str_def
      temp_path_of_def)

text \<open>
  Claim C8 says that the temporary image file is removed after the external call whether
  the call succeeds or fails. The code removes it only after a successful transcription:
  when the upload raises, the file \<open>temp_OLY_1.jpg\<close> written for the sample question is
  still on the disk when the function returns.
\<close>

theorem temp_file_left_when_upload_fails:
  "files (snd (process_student_work upload_fails_world empty_disk sample_question
                 sample_responses sample_uploads)) ''temp_OLY_1.jpg'' = Some ''AAAA''"
  by (simp add: process_student_work_def Let_def sample_question_def sample_uploads_def
      upload_fails_world_def offline_world_def truthy_str_def temp_path_of_def empty_disk_def)

text \<open>On the successful path the file is removed.\<close>

lemma temp_file_removed_on_success:
  assumes "uploads (question_id qn) = Some up" "truthy_str (GEMINI_API_KEY e)"
    "b64decode e (data up) = Some image_bytes"
    "files_upload e (temp_path_of (question_id qn)) image_bytes = Some handle"
    "ocr_reply e handle = Some reply"
  shows "files (snd (process_student_work e d qn resps uploads)) (temp_path_of (question_id qn))
           = None"
  using assms by (simp add: process_student_work_def Let_def)

section \<open>Properties of Stage 2\<close>

lemma work_quality_of_values: "work_quality_of c \<in> {3, 4, 6, 8}"
  by (simp add: work_quality_of_def Let_def)

lemma concepts_list_member:
  "c \<in> set (concepts_list xs) \<Longrightarrow>
     \<exists>cid entry. c = make_concept_obj cid entry \<and> attempted entry \<noteq> 0"
  by (induction xs rule: concepts_list.induct) (auto split: if_splits)

text \<open>
  Claim C10. For every Stage-1 report, every concept of the Stage-2 report (these are the
  concepts with at least one attempted question) has a work quality rating of 3, 4, 6
  or 8.
\<close>

theorem work_quality_rating_values:
  "c \<in> set (concepts (generate_stage2_report report)) \<Longrightarrow>
     work_quality_value c \<in> {3, 4, 6, 8}"
proof -
  assume "c \<in> set (concepts (generate_stage2_report report))"
  then have "c \<in> set (concepts_list (build_concept_data (s1_questions report)))"
    by (simp add: generate_stage2_report_def Let_def)
  then obtain cid entry where "c = make_concept_obj cid entry"
    using concepts_list_member by blast
  then have "work_quality_value c = work_quality_of entry"
    by (simp add: make_concept_obj_def)
  then show ?thesis
    using work_quality_of_values [of entry] by simp
qed

lemma scenario_concepts:
  "concepts (generate_stage2_report scenario_report) =
     [\<lparr>concept_id = ''ALGEBRA'', co_attempted = 2, co_correct = 2, accuracy = 1,
       work_quality_value = 3, evidence_count = 0, evidence_question_ids = []\<rparr>]"
  by code_simp

theorem work_quality_rating_values_witness:
  "hd (concepts (generate_stage2_report scenario_report))
     \<in> set (concepts (generate_stage2_report scenario_report)) \<and>
   work_quality_value (hd (concepts (generate_stage2_report scenario_report))) \<in> {3, 4, 6, 8}"
proof -
  have m: "hd (concepts (generate_stage2_report scenario_report))
     \<in> set (concepts (generate_stage2_report scenario_report))"
    unfolding scenario_concepts by simp
  show ?thesis
    using work_quality_rating_values [OF m] m by simp
qed

section \<open>The session invariant holds in every reachable session\<close>

lemma inv_init: "session_inv initialize_session_state"
  by (simp add: session_inv_def initialize_session_state_def changes_nonneg_def)

lemma inv_home: "page s = ''home'' \<Longrightarrow> session_inv s \<Longrightarrow> session_inv (render_home_page inp s)"
  by (auto simp: session_inv_def render_home_page_def Let_def changes_nonneg_def
      first_attempts_answered_def split: button.splits)

lemma record_answer_page [simp]: "page (record_answer inp q s) = page s"
  by (simp add: record_answer_def Let_def split: option.splits)
lemma record_upload_page [simp]: "page (record_upload inp q s) = page s"
  by (simp add: record_upload_def Let_def split: option.splits)
lemma record_typed_work_page [simp]: "page (record_typed_work inp q s) = page s"
  by (simp add: record_typed_work_def Let_def split: option.splits)

lemma record_answer_answered:
  "first_attempts_answered s \<Longrightarrow> first_attempts_answered (record_answer inp q s)"
  by (auto simp: record_answer_def Let_def first_attempts_answered_def answered_def truthy_str_def
      split: option.splits if_splits)

lemma record_answer_changes:
  "changes_nonneg s \<Longrightarrow> changes_nonneg (record_answer inp q s)"
  by (auto simp: record_answer_def Let_def changes_nonneg_def split: option.splits if_splits)

lemma record_upload_inv:
  "first_attempts_answered (record_upload inp q s) = first_attempts_answered s"
  "changes_nonneg (record_upload inp q s) = changes_nonneg s"
  by (auto simp: record_upload_def Let_def first_attempts_answered_def answered_def
      changes_nonneg_def split: option.splits)

lemma record_typed_work_keeps_answer:
  "answered s q' \<Longrightarrow> answered (record_typed_work inp q s) q'"
  by (auto simp: record_typed_work_def answered_def split: option.splits)

lemma record_typed_work_first_attempt [simp]:
  "first_attempt_times (record_typed_work inp q s) = first_attempt_times s"
  by (simp add: record_typed_work_def split: option.splits)

lemma record_typed_work_answered:
  "first_attempts_answered s \<Longrightarrow> first_attempts_answered (record_typed_work inp q s)"
  by (simp add: first_attempts_answered_def record_typed_work_keeps_answer)

lemma record_typed_work_changes:
  "changes_nonneg (record_typed_work inp q s) = changes_nonneg s"
  by (auto simp: record_typed_work_def changes_nonneg_def split: option.splits)

lemma quiz_buttons_inv:
  "first_attempts_answered (quiz_buttons inp q s) = first_attempts_answered s"
  "changes_nonneg (quiz_buttons inp q s) = changes_nonneg s"
  by (auto simp: quiz_buttons_def Let_def first_attempts_answered_def answered_def
      changes_nonneg_def)

lemma start_time_inv:
  "first_attempts_answered (s\<lparr>question_start_times := m\<rparr>) = first_attempts_answered s"
  "changes_nonneg (s\<lparr>question_start_times := m\<rparr>) = changes_nonneg s"
  by (auto simp: first_attempts_answered_def answered_def changes_nonneg_def)

lemma idx_inv:
  "first_attempts_answered (s\<lparr>current_question_idx := i\<rparr>) = first_attempts_answered s"
  "changes_nonneg (s\<lparr>current_question_idx := i\<rparr>) = changes_nonneg s"
  by (auto simp: first_attempts_answered_def answered_def changes_nonneg_def)

lemma page_inv:
  "first_attempts_answered (s\<lparr>page := p\<rparr>) = first_attempts_answered s"
  "changes_nonneg (s\<lparr>page := p\<rparr>) = changes_nonneg s"
  by (auto simp: first_attempts_answered_def answered_def changes_nonneg_def)

lemma quiz_answered:
  "first_attempts_answered s \<Longrightarrow> first_attempts_answered (render_quiz_page inp s)"
  by (auto simp: render_quiz_page_def Let_def record_answer_answered record_upload_inv
      record_typed_work_answered quiz_buttons_inv start_time_inv idx_inv page_inv
      split: option.splits button.splits)

lemma quiz_changes:
  "changes_nonneg s \<Longrightarrow> changes_nonneg (render_quiz_page inp s)"
  by (auto simp: render_quiz_page_def Let_def record_answer_changes record_upload_inv
      record_typed_work_changes quiz_buttons_inv start_time_inv idx_inv page_inv
      split: option.splits button.splits)

lemma inv_quiz: "page s = ''quiz'' \<Longrightarrow> session_inv s \<Longrightarrow> session_inv (render_quiz_page inp s)"
  by (simp add: session_inv_def quiz_answered quiz_changes)

lemma submit_quiz_inv:
  "first_attempts_answered (fst (submit_quiz w s d)) = first_attempts_answered s"
  "changes_nonneg (fst (submit_quiz w s d)) = changes_nonneg s"
  by (auto simp: submit_quiz_def Let_def first_attempts_answered_def answered_def
      changes_nonneg_def split: prod.splits option.splits)

lemma inv_submit:
  "session_inv s \<Longrightarrow> page s = ''submit'' \<Longrightarrow> session_inv (fst (render_submit_page w inp s d))"
  by (auto simp: session_inv_def render_submit_page_def submit_quiz_inv page_inv)

lemma inv_results:
  "session_inv s \<Longrightarrow> session_inv (render_results_page inp s)"
  by (auto simp: session_inv_def render_results_page_def changes_nonneg_def)

lemma inv_main: "session_inv s \<Longrightarrow> session_inv (fst (main w inp (s, d)))"
  by (simp add: main_def Let_def inv_home inv_quiz inv_submit inv_results)

lemma reachable_inv: "reachable s \<Longrightarrow> session_inv s"
  by (induction rule: reachable.induct) (simp_all add: inv_init inv_main)



section \<open>Properties of Stage 1\<close>

lemma py_int_pos: "0 < py_int x \<Longrightarrow> 0 < x"
  by (auto simp: py_int_def split: if_splits)

lemma stage1_step_data:
  "acc_questions_data (stage1_step e s acc idx qn) =
     acc_questions_data acc @ [last (acc_questions_data (stage1_step e s acc idx qn))]"
  by (simp add: stage1_step_def Let_def split: prod.splits)

lemma stage1_loop_records:
  assumes "\<And>acc idx qn. P (last (acc_questions_data (stage1_step e s acc idx qn)))"
  shows "(\<forall>qd \<in> set (acc_questions_data acc). P qd) \<Longrightarrow>
         (\<forall>qd \<in> set (acc_questions_data (stage1_loop e s acc idx qs)). P qd)"
proof (induction qs arbitrary: acc idx)
  case Nil
  then show ?case by simp
next
  case (Cons qn qs)
  have "\<forall>qd \<in> set (acc_questions_data (stage1_step e s acc idx qn)). P qd"
    using Cons.prems assms [of acc idx qn] stage1_step_data [of e s acc idx qn]
    by (metis Un_iff empty_iff insert_iff list.set(1) list.set(2) set_append)
  then show ?case using Cons.IH by simp
qed

lemma stage1_records:
  assumes "\<And>acc idx qn. P (last (acc_questions_data (stage1_step e s acc idx qn)))"
  shows "\<forall>qd \<in> set (s1_questions (fst (generate_performance_report e s d))). P qd"
  using stage1_loop_records [where P = P and e = e and s = s and idx = 0 and qs = "questions s"
      and acc = "\<lparr>acc_correct = 0, acc_incorrect = 0, acc_unattempted = 0,
                  acc_questions_data = [], acc_disk = d\<rparr>", OF assms]
  by (simp add: generate_performance_report_def Let_def)

lemma stage1_step_latency:
  assumes "first_attempts_answered s"
  shows "0 < kpis_first_attempt_latency_sec (last (acc_questions_data (stage1_step e s acc idx qn)))
         \<longrightarrow> submission_final_answer (last (acc_questions_data (stage1_step e s acc idx qn))) \<noteq> []"
proof (cases "first_attempt_times s (question_id qn)")
  case None
  then show ?thesis
    by (simp add: stage1_step_def Let_def py_int_def split: prod.splits)
next
  case (Some t)
  then have "answered s (question_id qn)"
    using assms by (auto simp: first_attempts_answered_def)
  then show ?thesis
    by (auto simp: stage1_step_def Let_def answered_def truthy_str_def split: prod.splits option.splits)
qed

lemma stage1_step_revision:
  assumes "changes_nonneg s"
  shows "(kpis_revision_outcome (last (acc_questions_data (stage1_step e s acc idx qn))) = ''none''
          \<longleftrightarrow> kpis_num_option_changes (last (acc_questions_data (stage1_step e s acc idx qn))) = 0) \<and>
         (kpis_num_option_changes (last (acc_questions_data (stage1_step e s acc idx qn))) > 0 \<longrightarrow>
          kpis_revision_outcome (last (acc_questions_data (stage1_step e s acc idx qn))) =
            (if submission_is_correct (last (acc_questions_data (stage1_step e s acc idx qn)))
             then ''improved'' else ''worsened''))"
proof (cases "option_changes s (question_id qn)")
  case None
  then show ?thesis
    by (simp add: stage1_step_def Let_def split: prod.splits)
next
  case (Some n)
  then have "0 \<le> n"
    using assms by (simp add: changes_nonneg_def)
  then have "n = 0 \<or> 0 < n" by linarith
  with Some show ?thesis
    by (auto simp: stage1_step_def Let_def split: prod.splits)
qed

lemmas run_defs = main_def render_home_page_def render_quiz_page_def record_answer_def
  record_upload_def record_typed_work_def quiz_buttons_def py_index_def Let_def idle_def
  topic_names_def truthy_str_def sample_question_def second_question_def third_question_def
  answer_entry_def initialize_session_state_def

lemma step_topic:
  "fst (main offline_world (idle\<lparr>pressed := TopicButton ''Algebra''\<rparr>)
          (initialize_session_state, empty_disk)) = state_topic"
  by (simp add: run_defs state_topic_def)

lemma step_started:
  "fst (main offline_world
          (idle\<lparr>pressed := StartQuiz, now := 100,
                fetched_questions := [sample_question, second_question, third_question]\<rparr>)
          (state_topic, empty_disk)) = state_started"
  by (simp add: run_defs state_topic_def state_started_def)

lemma step_shown_1:
  "fst (main offline_world (idle\<lparr>now := 100\<rparr>) (state_started, empty_disk)) = state_shown_1"
  by (simp add: run_defs state_topic_def state_started_def state_shown_1_def)

lemma step_answered_1:
  "fst (main offline_world (idle\<lparr>now := 105, numerical_answer := ''5''\<rparr>)
          (state_shown_1, empty_disk)) = state_answered_1"
  by (simp add: run_defs state_topic_def state_started_def state_shown_1_def state_answered_1_def)

lemma step_revised_1:
  "fst (main offline_world (idle\<lparr>now := 130, numerical_answer := ''4'', pressed := Next\<rparr>)
          (state_answered_1, empty_disk)) = state_revised_1"
  by (simp add: run_defs state_topic_def state_started_def state_shown_1_def state_answered_1_def
      state_revised_1_def)


lemmas state_defs = state_topic_def state_started_def state_shown_1_def state_answered_1_def
  state_revised_1_def state_shown_2_def state_answered_2_def state_jumped_def
  sample_session_def

lemma step_shown_2:
  "fst (main offline_world (idle\<lparr>now := 140\<rparr>) (state_revised_1, empty_disk)) = state_shown_2"
  by (simp add: run_defs state_defs)

lemma step_answered_2:
  "fst (main offline_world (idle\<lparr>now := 190, numerical_answer := ''8''\<rparr>)
          (state_shown_2, empty_disk)) = state_answered_2"
  by (simp add: run_defs state_defs)

lemma step_jumped:
  "fst (main offline_world (idle\<lparr>now := 195, numerical_answer := ''8'', pressed := NavButton 2\<rparr>)
          (state_answered_2, empty_disk)) = state_jumped"
  by (simp add: run_defs state_defs)

lemma step_finished:
  "fst (main offline_world (idle\<lparr>now := 200, pressed := FinishQuiz\<rparr>)
          (state_jumped, empty_disk)) = sample_session"
  by (simp add: run_defs state_defs)

lemma sample_session_reachable: "reachable sample_session"
proof -
  note r = reachable.run [where w = offline_world and d = empty_disk]
  have "reachable state_topic"
    using r reachable.start by (metis step_topic)
  then have "reachable state_started"
    using r by (metis step_started)
  then have "reachable state_shown_1"
    using r by (metis step_shown_1)
  then have "reachable state_answered_1"
    using r by (metis step_answered_1)
  then have "reachable state_revised_1"
    using r by (metis step_revised_1)
  then have "reachable state_shown_2"
    using r by (metis step_shown_2)
  then have "reachable state_answered_2"
    using r by (metis step_answered_2)
  then have "reachable state_jumped"
    using r by (metis step_jumped)
  then show ?thesis
    using r by (metis step_finished)
qed

lemma sample_session_page: "page sample_session = ''submit''"
  by (simp add: state_defs)

lemmas stage1_defs = generate_performance_report_def stage1_step_def process_student_work_def
  check_answer_with_llm_def typed_work_of_def py_int_def truthy_str_def Let_def
  offline_world_def sample_question_def second_question_def third_question_def
  answer_entry_def initialize_session_state_def

lemma sample_answers_normal: "py_lower (py_strip ''4'') = ''4''" "py_lower (py_strip ''8'') = ''8''" "py_lower (py_strip ''9'') = ''9''"
  by code_simp+

lemma sample_report:
  "s1_questions (fst (generate_performance_report offline_world sample_session empty_disk)) =
     [\<lparr>qd_question_id = ''OLY_1'', qd_question_type = ''numerical'', qd_difficulty = ''easy'',
       qd_concept_tags = [''ALGEBRA''], submission_final_answer = ''4'',
       submission_correct_answer = ''4'', submission_is_correct = True,
       submission_changed_answer = True, kpis_time_spent_sec = 200,
       kpis_first_attempt_latency_sec = 5, kpis_num_option_changes = 1,
       kpis_revision_outcome = ''improved'', work_handwritten_uploaded = False,
       work_typed_work_provided = False, work_typed_work_text = [],
       work_handwritten_work_ocr = [], work_combined_work_text = []\<rparr>,
      \<lparr>qd_question_id = ''OLY_2'', qd_question_type = ''numerical'', qd_difficulty = ''medium'',
       qd_concept_tags = [''ALGEBRA''], submission_final_answer = ''8'',
       submission_correct_answer = ''9'', submission_is_correct = False,
       submission_changed_answer = False, kpis_time_spent_sec = 160,
       kpis_first_attempt_latency_sec = 50, kpis_num_option_changes = 0,
       kpis_revision_outcome = ''none'', work_handwritten_uploaded = False,
       work_typed_work_provided = False, work_typed_work_text = [],
       work_handwritten_work_ocr = [], work_combined_work_text = []\<rparr>,
      \<lparr>qd_question_id = ''OLY_3'', qd_question_type = ''numerical'', qd_difficulty = ''hard'',
       qd_concept_tags = [''GEOMETRY''], submission_final_answer = [],
       submission_correct_answer = ''12'', submission_is_correct = False,
       submission_changed_answer = False, kpis_time_spent_sec = 100,
       kpis_first_attempt_latency_sec = 0, kpis_num_option_changes = 0,
       kpis_revision_outcome = ''none'', work_handwritten_uploaded = False,
       work_typed_work_provided = False, work_typed_work_text = [],
       work_handwritten_work_ocr = [], work_combined_work_text = []\<rparr>]"
  by (simp add: stage1_defs state_defs sample_answers_normal)

text \<open>
  Claim C3. In every record that the Stage-1 aggregator produces from a session the
  program can be in, the revision outcome is \<open>none\<close> if and only if the number of option
  changes is 0; and when that number is positive, the outcome is \<open>improved\<close> if the
  answer was judged correct and \<open>worsened\<close> otherwise.
\<close>

theorem revision_outcome_invariant:
  assumes "reachable s" and "qd \<in> set (s1_questions (fst (generate_performance_report e s d)))"
  shows "(kpis_revision_outcome qd = ''none'' \<longleftrightarrow> kpis_num_option_changes qd = 0) \<and>
         (kpis_num_option_changes qd > 0 \<longrightarrow>
            kpis_revision_outcome qd = (if submission_is_correct qd then ''improved'' else ''worsened''))"
proof -
  have "changes_nonneg s"
    using reachable_inv [OF assms(1)] by (simp add: session_inv_def)
  then show ?thesis
    using stage1_records [where P = "\<lambda>qd. (kpis_revision_outcome qd = ''none'' \<longleftrightarrow> kpis_num_option_changes qd = 0) \<and>
         (kpis_num_option_changes qd > 0 \<longrightarrow>
            kpis_revision_outcome qd = (if submission_is_correct qd then ''improved'' else ''worsened''))"
        and e = e and s = s and d = d] stage1_step_revision assms(2)
    by blast
qed

theorem revision_outcome_invariant_witness:
  "reachable sample_session \<and>
   hd (s1_questions (fst (generate_performance_report offline_world sample_session empty_disk)))
     \<in> set (s1_questions (fst (generate_performance_report offline_world sample_session empty_disk))) \<and>
   kpis_num_option_changes
     (hd (s1_questions (fst (generate_performance_report offline_world sample_session empty_disk)))) = 1 \<and>
   submission_is_correct
     (hd (s1_questions (fst (generate_performance_report offline_world sample_session empty_disk)))) \<and>
   kpis_revision_outcome
     (hd (s1_questions (fst (generate_performance_report offline_world sample_session empty_disk)))) = ''improved''"
proof -
  have m: "hd (s1_questions (fst (generate_performance_report offline_world sample_session empty_disk)))
     \<in> set (s1_questions (fst (generate_performance_report offline_world sample_session empty_disk)))"
    unfolding sample_report by simp
  have n: "kpis_num_option_changes
     (hd (s1_questions (fst (generate_performance_report offline_world sample_session empty_disk)))) = 1"
     "submission_is_correct
     (hd (s1_questions (fst (generate_performance_report offline_world sample_session empty_disk))))"
    unfolding sample_report by simp_all
  show ?thesis
    using revision_outcome_invariant [OF sample_session_reachable m] sample_session_reachable m n
    by simp
qed

section \<open>Properties of the two indices\<close>

lemma fraction_bounds:
  "0 \<le> (of_nat (length (filter P xs)) / of_nat (length xs) :: rat) \<and>
   (of_nat (length (filter P xs)) / of_nat (length xs) :: rat) \<le> 1"
proof (cases "xs = []")
  case True
  then show ?thesis by simp
next
  case False
  have "length (filter P xs) \<le> length xs" by simp
  then have "(of_nat (length (filter P xs)) :: rat) \<le> of_nat (length xs)"
    using of_nat_le_iff by blast
  with False show ?thesis by (simp add: divide_le_eq_1)
qed

lemma spec_overthinking_bounds: "0 \<le> spec_overthinking qs \<and> spec_overthinking qs \<le> 1"
proof -
  have "filter (\<lambda>q. qd_difficulty q = ''easy'' \<and> kpis_time_spent_sec q > 120) qs
        = filter (\<lambda>q. kpis_time_spent_sec q > 120) (filter (\<lambda>q. qd_difficulty q = ''easy'') qs)"
    by (simp add: conj_commute)
  then show ?thesis
    using fraction_bounds [of "\<lambda>q. kpis_time_spent_sec q > 120" "filter (\<lambda>q. qd_difficulty q = ''easy'') qs"]
    by (simp add: spec_overthinking_def)
qed

lemma spec_impulsivity_bounds: "0 \<le> spec_impulsivity qs \<and> spec_impulsivity qs \<le> 1"
  using fraction_bounds [of "\<lambda>q. 0 < kpis_first_attempt_latency_sec q \<and> kpis_first_attempt_latency_sec q < 20" "spec_attempted qs"]
  by (simp add: spec_impulsivity_def)

lemma overthinking_index_spec: "overthinking_index qs = spec_overthinking qs"
  by (simp add: overthinking_index_def spec_overthinking_def overthinking_count_def
      easy_questions_def easy_time_threshold_def conj_commute)

lemma impulsivity_index_spec:
  assumes "\<forall>q \<in> set qs. 0 < kpis_first_attempt_latency_sec q \<longrightarrow> submission_final_answer q \<noteq> []"
  shows "impulsivity_index qs = spec_impulsivity qs"
proof -
  have "filter (\<lambda>q. 0 < kpis_first_attempt_latency_sec q \<and> kpis_first_attempt_latency_sec q < 20) qs
        = filter (\<lambda>q. 0 < kpis_first_attempt_latency_sec q \<and> kpis_first_attempt_latency_sec q < 20)
            (spec_attempted qs)"
    using assms by (auto simp: spec_attempted_def intro: filter_cong)
  moreover have "total_attempted qs > 0 \<longleftrightarrow> spec_attempted qs \<noteq> []"
    by (simp add: total_attempted_def spec_attempted_def)
  ultimately show ?thesis
    by (simp add: impulsivity_index_def spec_impulsivity_def impulsive_count_def
        impulsive_threshold_def total_attempted_def spec_attempted_def)
qed

text \<open>
  Claim C2. For every Stage-1 report, the overthinking index of the Stage-2 report is the
  number of easy questions with more than 120 seconds of time spent, divided by the number
  of all easy questions, attempted or not; it is 0 when the report has no easy question.
\<close>

theorem overthinking_index_fraction:
  "overthinking_index_value (generate_stage2_report report) = spec_overthinking (s1_questions report) \<and>
   (filter (\<lambda>q. qd_difficulty q = ''easy'') (s1_questions report) = [] \<longrightarrow>
      overthinking_index_value (generate_stage2_report report) = 0)"
  by (simp add: generate_stage2_report_def Let_def overthinking_index_spec spec_overthinking_def)

theorem overthinking_index_fraction_witness:
  "overthinking_index_value (generate_stage2_report scenario_report) = 1 / 3"
proof -
  have "spec_overthinking (s1_questions scenario_report) = 1 / 3"
    by (simp add: spec_overthinking_def scenario_report_def scenario_record_def)
  then show ?thesis
    using overthinking_index_fraction [of scenario_report] by simp
qed

text \<open>
  The impulsive questions are counted over all records and divided by the number of
  attempted ones. On records in which an unattempted question carries a positive latency
  the quotient can exceed 1; the Stage-1 aggregator never builds such a record, because
  the session stores a first-attempt time only together with a non-empty answer.
\<close>

lemma impulsivity_index_unguarded:
  "impulsivity_index
     [scenario_record ''Q1'' ''4'' True 30 12 0 ''none'',
      scenario_record ''Q2'' [] False 30 5 0 ''none'',
      scenario_record ''Q3'' [] False 30 7 0 ''none''] = 3"
  by (simp add: impulsivity_index_def impulsive_count_def total_attempted_def
      impulsive_threshold_def scenario_record_def)

text \<open>
  Claim C1. For every Stage-1 report that reaches the Stage-2 aggregator, that is the
  report built on the submit page of a session the program can be in, the impulsivity
  index is the fraction of the attempted questions whose first-attempt latency lies
  strictly between 0 and 20; it is 0 when no question is attempted; and the impulsivity
  index and the overthinking index lie between 0 and 1.
\<close>

theorem impulsivity_index_fraction:
  assumes "reachable s" and "page s = ''submit''"
  shows "impulsivity_index_value (generate_stage2_report (fst (generate_performance_report e s d)))
           = spec_impulsivity (s1_questions (fst (generate_performance_report e s d))) \<and>
         (spec_attempted (s1_questions (fst (generate_performance_report e s d))) = [] \<longrightarrow>
            impulsivity_index_value (generate_stage2_report (fst (generate_performance_report e s d))) = 0) \<and>
         0 \<le> impulsivity_index_value (generate_stage2_report (fst (generate_performance_report e s d))) \<and>
         impulsivity_index_value (generate_stage2_report (fst (generate_performance_report e s d))) \<le> 1 \<and>
         0 \<le> overthinking_index_value (generate_stage2_report (fst (generate_performance_report e s d))) \<and>
         overthinking_index_value (generate_stage2_report (fst (generate_performance_report e s d))) \<le> 1"
proof -
  let ?qs = "s1_questions (fst (generate_performance_report e s d))"
  have "first_attempts_answered s"
    using reachable_inv [OF assms(1)] assms(2) by (simp add: session_inv_def)
  then have "\<forall>q \<in> set ?qs. 0 < kpis_first_attempt_latency_sec q \<longrightarrow> submission_final_answer q \<noteq> []"
    using stage1_records [where P = "\<lambda>q. 0 < kpis_first_attempt_latency_sec q \<longrightarrow> submission_final_answer q \<noteq> []"
        and e = e and s = s and d = d] stage1_step_latency
    by blast
  then have i: "impulsivity_index ?qs = spec_impulsivity ?qs"
    by (rule impulsivity_index_spec)
  have v: "impulsivity_index_value (generate_stage2_report (fst (generate_performance_report e s d)))
             = impulsivity_index ?qs"
       "overthinking_index_value (generate_stage2_report (fst (generate_performance_report e s d)))
             = overthinking_index ?qs"
    by (simp_all add: generate_stage2_report_def Let_def)
  have z: "spec_attempted ?qs = [] \<longrightarrow> spec_impulsivity ?qs = 0"
    by (simp add: spec_impulsivity_def)
  show ?thesis
    unfolding v i overthinking_index_spec
    using z spec_impulsivity_bounds [of ?qs] spec_overthinking_bounds [of ?qs] by simp
qed

theorem impulsivity_index_fraction_witness:
  "reachable sample_session \<and> page sample_session = ''submit'' \<and>
   impulsivity_index_value (generate_stage2_report
      (fst (generate_performance_report offline_world sample_session empty_disk))) = 1 / 2"
proof -
  have "spec_impulsivity (s1_questions (fst (generate_performance_report offline_world
          sample_session empty_disk))) = 1 / 2"
    unfolding sample_report by (simp add: spec_impulsivity_def spec_attempted_def)
  then show ?thesis
    using impulsivity_index_fraction [OF sample_session_reachable sample_session_page,
        where e = offline_world and d = empty_disk]
      sample_session_reachable sample_session_page
    by simp
qed

section \<open>Properties of Stage 3 and the submit handler\<close>

lemma process_student_work_no_key:
  "\<not> truthy_str (GEMINI_API_KEY e) \<Longrightarrow> snd (process_student_work e d qn resps uploads) = d"
  by (simp add: process_student_work_def Let_def split: option.splits)

lemma stage1_step_no_key:
  "\<not> truthy_str (GEMINI_API_KEY e) \<Longrightarrow> acc_disk (stage1_step e s acc idx qn) = acc_disk acc"
  using process_student_work_no_key [of e]
  by (simp add: stage1_step_def Let_def split: prod.splits) (metis snd_conv)

lemma stage1_loop_no_key:
  "\<not> truthy_str (GEMINI_API_KEY e) \<Longrightarrow> acc_disk (stage1_loop e s acc idx qs) = acc_disk acc"
  by (induction qs arbitrary: acc idx) (simp_all add: stage1_step_no_key)

lemma generate_performance_report_no_key:
  "\<not> truthy_str (GEMINI_API_KEY e) \<Longrightarrow> snd (generate_performance_report e s d) = d"
  by (simp add: generate_performance_report_def Let_def stage1_loop_no_key)

text \<open>
  Claim C9. The synthesis returns \<open>None\<close> when the credential is missing, when the call
  fails and when the reply does not parse as JSON. When it returns \<open>None\<close>, the submit
  handler leaves the session as it was, so the page is still the submit page and no
  report is stored in it, and it leaves the disk as Stage 1 left it, so no report
  directory or file is written; without credential Stage 1 does not touch the disk
  either. The two reports are values that the synthesis only reads.
\<close>

theorem stage3_failure_is_fatal:
  "(\<not> truthy_str (GEMINI_API_KEY w) \<or> stage3_reply w kpi_report raw_report = None \<or>
    (\<exists>reply. stage3_reply w kpi_report raw_report = Some reply \<and>
             json_loads w (strip_code_fence (py_strip reply)) = None)
      \<longrightarrow> generate_stage3_report_with_llm w kpi_report raw_report = JNull) \<and>
   (pressed inp = SubmitQuiz \<and>
    generate_stage3_report_with_llm w
      (generate_stage2_report (fst (generate_performance_report w s d)))
      (fst (generate_performance_report w s d)) = JNull
      \<longrightarrow> render_submit_page w inp s d = (s, snd (generate_performance_report w s d))) \<and>
   (\<not> truthy_str (GEMINI_API_KEY w) \<longrightarrow> snd (generate_performance_report w s d) = d)"
proof (intro conjI impI)
  assume "\<not> truthy_str (GEMINI_API_KEY w) \<or> stage3_reply w kpi_report raw_report = None \<or>
    (\<exists>reply. stage3_reply w kpi_report raw_report = Some reply \<and>
             json_loads w (strip_code_fence (py_strip reply)) = None)"
  then show "generate_stage3_report_with_llm w kpi_report raw_report = JNull"
    by (auto simp: generate_stage3_report_with_llm_def split: option.splits)
next
  assume a: "pressed inp = SubmitQuiz \<and>
    generate_stage3_report_with_llm w
      (generate_stage2_report (fst (generate_performance_report w s d)))
      (fst (generate_performance_report w s d)) = JNull"
  then show "render_submit_page w inp s d = (s, snd (generate_performance_report w s d))"
    by (simp add: render_submit_page_def submit_quiz_def Let_def case_prod_beta)
next
  assume "\<not> truthy_str (GEMINI_API_KEY w)"
  then show "snd (generate_performance_report w s d) = d"
    by (rule generate_performance_report_no_key)
qed

theorem stage3_failure_is_fatal_witness:
  "render_submit_page offline_world (idle\<lparr>pressed := SubmitQuiz\<rparr>) sample_session empty_disk
     = (sample_session, empty_disk) \<and>
   fst (render_submit_page upload_fails_world (idle\<lparr>pressed := SubmitQuiz\<rparr>) sample_session empty_disk)
     = sample_session \<and>
   fst (render_submit_page garbled_world (idle\<lparr>pressed := SubmitQuiz\<rparr>) sample_session empty_disk)
     = sample_session"
proof -
  have k: "\<not> truthy_str (GEMINI_API_KEY offline_world)"
    by (simp add: offline_world_def truthy_str_def)
  have r: "stage3_reply upload_fails_world r2 r1 = None" for r2 r1
    by (simp add: upload_fails_world_def offline_world_def)
  have g: "stage3_reply garbled_world r2 r1 = Some ''Sorry, no plan.'' \<and>
           json_loads garbled_world (strip_code_fence (py_strip ''Sorry, no plan.'')) = None" for r2 r1
    by (simp add: garbled_world_def online_world_def offline_world_def)
  have p: "pressed (idle\<lparr>pressed := SubmitQuiz\<rparr>) = SubmitQuiz"
    by simp
  show ?thesis
    using stage3_failure_is_fatal [where w = offline_world and s = sample_session
        and d = empty_disk and inp = "idle\<lparr>pressed := SubmitQuiz\<rparr>"
        and kpi_report = "generate_stage2_report (fst (generate_performance_report offline_world sample_session empty_disk))"
        and raw_report = "fst (generate_performance_report offline_world sample_session empty_disk)"]
      stage3_failure_is_fatal [where w = upload_fails_world and s = sample_session
        and d = empty_disk and inp = "idle\<lparr>pressed := SubmitQuiz\<rparr>"
        and kpi_report = "generate_stage2_report (fst (generate_performance_report upload_fails_world sample_session empty_disk))"
        and raw_report = "fst (generate_performance_report upload_fails_world sample_session empty_disk)"]
      stage3_failure_is_fatal [where w = garbled_world and s = sample_session
        and d = empty_disk and inp = "idle\<lparr>pressed := SubmitQuiz\<rparr>"
        and kpi_report = "generate_stage2_report (fst (generate_performance_report garbled_world sample_session empty_disk))"
        and raw_report = "fst (generate_performance_report garbled_world sample_session empty_disk)"]
      k r g p
    by simp
qed

end
